theory Spec2Isabelle
  imports Main
begin

section \<open>Python values and strings\<close>

text \<open>
  The program is \<^verbatim>\<open>src/bin/tg_tools.py\<close>: a command-line wrapper around the Telethon
  client library. Strings are byte lists; the operations on them that the program uses
  (\<^verbatim>\<open>lower\<close>, \<^verbatim>\<open>strip\<close>, \<^verbatim>\<open>replace\<close>, \<^verbatim>\<open>in\<close>, \<^verbatim>\<open>int\<close>) are modelled on ASCII text.
\<close>

datatype pyval = PyNone | PyStr string | PyInt int

text \<open>An object whose attributes (when present) are read with \<^verbatim>\<open>getattr(o, name, None)\<close>.\<close>

type_synonym pyobj = "(string \<times> pyval) list"

definition getattr :: "pyobj \<Rightarrow> string \<Rightarrow> pyval \<Rightarrow> pyval" where
  "getattr ob name dflt = (case map_of ob name of None \<Rightarrow> dflt | Some v \<Rightarrow> v)"

text \<open>Truth value of an object: \<^verbatim>\<open>None\<close>, the empty string and zero are false.\<close>

fun truthy :: "pyval \<Rightarrow> bool" where
  "truthy PyNone = False"
| "truthy (PyStr s) = (s \<noteq> [])"
| "truthy (PyInt n) = (n \<noteq> 0)"

text \<open>\<^verbatim>\<open>a or b\<close>: the first operand when it is true, the second otherwise.\<close>

definition py_or :: "pyval \<Rightarrow> pyval \<Rightarrow> pyval" where
  "py_or a b = (if truthy a then a else b)"

text \<open>\<^verbatim>\<open>not x\<close> for \<^verbatim>\<open>x\<close> a string or \<^verbatim>\<open>None\<close>.\<close>

definition not_str :: "string option \<Rightarrow> bool" where
  "not_str x = (case x of None \<Rightarrow> True | Some s \<Rightarrow> s = [])"

definition digit_chr :: "nat \<Rightarrow> char" where
  "digit_chr d = ''0123456789'' ! d"

fun str_nat :: "nat \<Rightarrow> string" where
  "str_nat n = (if n < 10 then [digit_chr n] else str_nat (n div 10) @ [digit_chr (n mod 10)])"

declare str_nat.simps [simp del]

text \<open>\<^verbatim>\<open>str(i)\<close> for an integer: decimal digits, with a minus sign when negative.\<close>

definition str_int :: "int \<Rightarrow> string" where
  "str_int i = (if i < 0 then CHR ''-'' # str_nat (nat (- i)) else str_nat (nat i))"

text \<open>What an f-string field \<^verbatim>\<open>{v}\<close> prints.\<close>

fun py_str :: "pyval \<Rightarrow> string" where
  "py_str PyNone = ''None''"
| "py_str (PyStr s) = s"
| "py_str (PyInt i) = str_int i"

text \<open>\<^verbatim>\<open>s.replace(old, new)\<close> for one-character \<^verbatim>\<open>old\<close> and \<^verbatim>\<open>new\<close>.\<close>

definition replace :: "char \<Rightarrow> char \<Rightarrow> string \<Rightarrow> string" where
  "replace old new s = map (\<lambda>c. if c = old then new else c) s"

definition newline :: char where
  "newline = CHR 0x0A"

definition tab :: char where
  "tab = CHR 0x09"

text \<open>\<^verbatim>\<open>s.lower()\<close> on ASCII letters.\<close>

definition lower_chr :: "char \<Rightarrow> char" where
  "lower_chr c =
     (case map_of (zip ''ABCDEFGHIJKLMNOPQRSTUVWXYZ'' ''abcdefghijklmnopqrstuvwxyz'') c of
        None \<Rightarrow> c
      | Some l \<Rightarrow> l)"

definition lower :: "string \<Rightarrow> string" where
  "lower s = map lower_chr s"

text \<open>\<^verbatim>\<open>pat in s\<close>: \<^verbatim>\<open>pat\<close> occurs in \<^verbatim>\<open>s\<close> as a contiguous substring.\<close>

fun startswith :: "string \<Rightarrow> string \<Rightarrow> bool" where
  "startswith s [] = True"
| "startswith [] (p # ps) = False"
| "startswith (c # cs) (p # ps) = (c = p \<and> startswith cs ps)"

fun contains :: "string \<Rightarrow> string \<Rightarrow> bool" where
  "contains pat [] = (pat = [])"
| "contains pat (c # cs) = (startswith (c # cs) pat \<or> contains pat cs)"

text \<open>ASCII whitespace, as \<^verbatim>\<open>str.strip()\<close> and \<^verbatim>\<open>int()\<close> skip it at both ends.\<close>

definition is_space :: "char \<Rightarrow> bool" where
  "is_space c = (let n = (of_char c :: nat) in (9 \<le> n \<and> n \<le> 13) \<or> (28 \<le> n \<and> n \<le> 32))"

definition strip :: "string \<Rightarrow> string" where
  "strip s = rev (dropWhile is_space (rev (dropWhile is_space s)))"

definition is_digit :: "char \<Rightarrow> bool" where
  "is_digit c = (let n = (of_char c :: nat) in 48 \<le> n \<and> n \<le> 57)"

definition digit_val :: "char \<Rightarrow> nat" where
  "digit_val c = of_char c - 48"

definition is_ascii :: "string \<Rightarrow> bool" where
  "is_ascii s = list_all (\<lambda>c. (of_char c :: nat) < 128) s"

text \<open>
  The digits of an integer literal after the sign: groups of decimal digits separated by
  single underscores. \<open>int_digits acc prev_digit s\<close> reads \<open>s\<close> with the value so far and
  whether the previous character was a digit; \<^verbatim>\<open>None\<close> when \<open>s\<close> is not such a literal.
\<close>

fun int_digits :: "nat \<Rightarrow> bool \<Rightarrow> string \<Rightarrow> nat option" where
  "int_digits acc prev [] = (if prev then Some acc else None)"
| "int_digits acc prev (c # cs) =
     (if is_digit c then int_digits (10 * acc + digit_val c) True cs
      else if c = CHR ''_'' \<and> prev then
        (case cs of [] \<Rightarrow> None | d # _ \<Rightarrow> if is_digit d then int_digits acc False cs else None)
      else None)"

text \<open>
  \<^verbatim>\<open>int(s)\<close> in base 10: surrounding whitespace is skipped, one sign is allowed, and
  the rest must be a digit literal; otherwise Python raises \<^verbatim>\<open>ValueError\<close> (here \<^verbatim>\<open>None\<close>).
\<close>

definition py_int :: "string \<Rightarrow> int option" where
  "py_int s =
     (case strip s of
        [] \<Rightarrow> None
      | c # cs \<Rightarrow>
          if c = CHR ''-'' then map_option (\<lambda>n. - int n) (int_digits 0 False cs)
          else if c = CHR ''+'' then map_option int (int_digits 0 False cs)
          else map_option int (int_digits 0 False (c # cs)))"

section \<open>Errors, events and the effect monad\<close>

text \<open>
  An exception raised by the client library: whether its class derives from
  \<^verbatim>\<open>Exception\<close> (what \<^verbatim>\<open>except Exception\<close> catches), and its \<^verbatim>\<open>str()\<close>.
\<close>

datatype lib_exception = LibException (derives_Exception: bool) (message_of: string)

text \<open>
  Every way a command can end other than by returning: \<^verbatim>\<open>raise SystemExit(msg)\<close>, the
  \<^verbatim>\<open>ValueError\<close> of \<^verbatim>\<open>int()\<close> (with its argument), an attribute read on \<^verbatim>\<open>None\<close>,
  \<^verbatim>\<open>input()\<close> at the end of standard input, and an exception of the client library.
\<close>

datatype error =
    SystemExit string
  | ValueError string
  | AttributeError string
  | EOFError
  | Lib lib_exception

text \<open>The calls into the client library, with their arguments.\<close>

datatype client_call =
    TelegramClient string int string
  | Connect
  | IsUserAuthorized
  | SendCodeRequest string
  | SignIn string string
  | SignInPassword string
  | GetMe
  | Disconnect
  | AEnter
  | AExit
  | GetDialogs int
  | GetEntity string
  | GetMessages pyobj int
  | IterMessages string int
  | GetChat

text \<open>
  What the process does that the outside can see, in order: a call into the client library
  (with the exception it raised, if any), a prompt of \<^verbatim>\<open>input()\<close>, a printed line.
\<close>

datatype event =
    Call client_call "lib_exception option"
  | Input string
  | Print string

record io_state =
  trace :: "event list"
  stdin :: "string list"

type_synonym 'a io = "io_state \<Rightarrow> (error + 'a) \<times> io_state"

definition io_return :: "'a \<Rightarrow> 'a io" where
  "io_return v st = (Inr v, st)"

definition io_raise :: "error \<Rightarrow> 'a io" where
  "io_raise e st = (Inl e, st)"

definition io_bind :: "'a io \<Rightarrow> ('a \<Rightarrow> 'b io) \<Rightarrow> 'b io" where
  "io_bind m f st = (case m st of (Inl e, st') \<Rightarrow> (Inl e, st') | (Inr v, st') \<Rightarrow> f v st')"

definition log :: "event \<Rightarrow> io_state \<Rightarrow> io_state" where
  "log ev st = st\<lparr>trace := trace st @ [ev]\<rparr>"

text \<open>A call into the library: it is recorded, and it returns or raises as the library does.\<close>

definition call :: "client_call \<Rightarrow> lib_exception + 'a \<Rightarrow> 'a io" where
  "call c r st =
     (case r of
        Inl e \<Rightarrow> (Inl (Lib e), log (Call c (Some e)) st)
      | Inr v \<Rightarrow> (Inr v, log (Call c None) st))"

definition py_print :: "string \<Rightarrow> unit io" where
  "py_print line st = (Inr (), log (Print line) st)"

text \<open>\<^verbatim>\<open>input(prompt)\<close>: shows the prompt and reads one line; \<^verbatim>\<open>EOFError\<close> when there is none.\<close>

definition py_input :: "string \<Rightarrow> string io" where
  "py_input prompt st =
     (case stdin st of
        [] \<Rightarrow> (Inl EOFError, log (Input prompt) st)
      | l # ls \<Rightarrow> (Inr l, (log (Input prompt) st)\<lparr>stdin := ls\<rparr>))"

text \<open>
  \<^verbatim>\<open>try: body  except Exception as e: handler(e)\<close>. The body of each \<^verbatim>\<open>try\<close> of the program
  is made of calls into the library and of attribute reads with a default, so the
  exceptions that arise in it are the library's; the handler runs for those whose class
  derives from \<^verbatim>\<open>Exception\<close>, and every other error passes through.
\<close>

definition try_except :: "'a io \<Rightarrow> (lib_exception \<Rightarrow> 'a io) \<Rightarrow> 'a io" where
  "try_except body handler st =
     (case body st of
        (Inl (Lib e), st') \<Rightarrow> if derives_Exception e then handler e st' else (Inl (Lib e), st')
      | (r, st') \<Rightarrow> (r, st'))"

section \<open>The backing service\<close>

record user =
  user_id :: int
  user_attrs :: pyobj

record dialog =
  dialog_id :: int
  entity :: pyobj

text \<open>
  A message: its body (\<^verbatim>\<open>m.message\<close>, a string or \<^verbatim>\<open>None\<close>), its timestamp (\<^verbatim>\<open>m.date\<close>),
  the attributes read with \<^verbatim>\<open>getattr\<close> (\<^verbatim>\<open>chat_id\<close>), and what awaiting \<^verbatim>\<open>m.get_chat()\<close>
  does: raise, or return the chat entity or \<^verbatim>\<open>None\<close>.
\<close>

record 'd tg_message =
  message :: "string option"
  date :: 'd
  attrs :: pyobj
  get_chat :: "lib_exception + pyobj option"

text \<open>
  Everything outside the repository: what each call into the client library returns or
  raises, and \<^verbatim>\<open>datetime.isoformat\<close>. \<open>iter_messages_r\<close> gives the messages the
  asynchronous iterator yields and the exception that then ends the iteration, if any.
\<close>

record 'd world =
  isoformat :: "'d \<Rightarrow> string"
  TelegramClient_r :: "string \<Rightarrow> int \<Rightarrow> string \<Rightarrow> lib_exception + unit"
  connect_r :: "lib_exception + unit"
  is_user_authorized_r :: "lib_exception + bool"
  send_code_request_r :: "string \<Rightarrow> lib_exception + unit"
  sign_in_r :: "string \<Rightarrow> string \<Rightarrow> lib_exception + unit"
  sign_in_password_r :: "string \<Rightarrow> lib_exception + unit"
  get_me_r :: "lib_exception + user option"
  disconnect_r :: "lib_exception + unit"
  aenter_r :: "lib_exception + unit"
  aexit_r :: "lib_exception + unit"
  get_dialogs_r :: "int \<Rightarrow> lib_exception + dialog list"
  get_entity_r :: "string \<Rightarrow> lib_exception + pyobj"
  get_messages_r :: "pyobj \<Rightarrow> int \<Rightarrow> lib_exception + 'd tg_message list"
  iter_messages_r :: "string \<Rightarrow> int \<Rightarrow> 'd tg_message list \<times> lib_exception option"

text \<open>
  \<^verbatim>\<open>async with client: body\<close>. The client is entered, the body runs, and the client is
  left whether the body returned or raised; leaving never swallows the body's exception,
  and an exception raised on leaving is the one that propagates.
\<close>

definition async_with :: "'d world \<Rightarrow> 'a io \<Rightarrow> 'a io" where
  "async_with w body =
     io_bind (call AEnter (aenter_r w)) (\<lambda>_ st.
       case body st of (r, st') \<Rightarrow>
         (case call AExit (aexit_r w) st' of
            (Inl e, st'') \<Rightarrow> (Inl e, st'')
          | (Inr _, st'') \<Rightarrow> (r, st'')))"

section \<open>The program\<close>

definition BASE :: string where
  "BASE = ''/opt/openclaw/secret''"

definition ENV_PATH :: string where
  "ENV_PATH = BASE @ ''/tg.env''"

definition SESSION_PATH :: string where
  "SESSION_PATH = BASE @ ''/telethon''"

text \<open>
  \<open>get_client\<close>; \<open>environ\<close> is \<^verbatim>\<open>os.environ\<close> after \<^verbatim>\<open>load_dotenv(ENV_PATH)\<close>. The client
  handle is not used by the model after its construction: the world answers the calls.
\<close>

definition get_client :: "'d world \<Rightarrow> (string \<rightharpoonup> string) \<Rightarrow> unit io" where
  "get_client w environ =
     (let api_id = environ ''TG_API_ID''; api_hash = environ ''TG_API_HASH'' in
      if not_str api_id \<or> not_str api_hash then
        io_raise (SystemExit ''Missing TG_API_ID/TG_API_HASH (check /opt/openclaw/secret/tg.env)'')
      else
        (case py_int (the api_id) of
           None \<Rightarrow> io_raise (ValueError (the api_id))
         | Some n \<Rightarrow>
             call (TelegramClient SESSION_PATH n (the api_hash))
               (TelegramClient_r w SESSION_PATH n (the api_hash))))"

text \<open>Line 65 of the source: the label of a dialog's entity.\<close>

definition dialogs_title :: "pyobj \<Rightarrow> pyval" where
  "dialogs_title ent =
     py_or (getattr ent ''title'' PyNone)
       (py_or (getattr ent ''username'' PyNone) (getattr ent ''first_name'' PyNone))"

definition dialogs_line :: "dialog \<Rightarrow> string" where
  "dialogs_line d = str_int (dialog_id d) @ [tab] @ py_str (dialogs_title (entity d))"

fun dialogs_loop :: "dialog list \<Rightarrow> unit io" where
  "dialogs_loop [] = io_return ()"
| "dialogs_loop (d # ds) = io_bind (py_print (dialogs_line d)) (\<lambda>_. dialogs_loop ds)"

definition cmd_dialogs :: "'d world \<Rightarrow> (string \<rightharpoonup> string) \<Rightarrow> int \<Rightarrow> unit io" where
  "cmd_dialogs w environ limit =
     io_bind (get_client w environ) (\<lambda>_.
       async_with w
         (io_bind (call (GetDialogs limit) (get_dialogs_r w limit)) (\<lambda>dialogs.
            dialogs_loop dialogs)))"

text \<open>Lines 75 and 91: \<^verbatim>\<open>(m.message or "").replace("\n", " ")\<close>.\<close>

definition message_text :: "'d tg_message \<Rightarrow> string" where
  "message_text m =
     replace newline (CHR '' '') (case message m of None \<Rightarrow> [] | Some s \<Rightarrow> if s = [] then [] else s)"

definition tail_line :: "('d \<Rightarrow> string) \<Rightarrow> 'd tg_message \<Rightarrow> string" where
  "tail_line fmt m = ''['' @ fmt (date m) @ ''] '' @ message_text m"

fun tail_loop :: "('d \<Rightarrow> string) \<Rightarrow> 'd tg_message list \<Rightarrow> unit io" where
  "tail_loop fmt [] = io_return ()"
| "tail_loop fmt (m # ms) = io_bind (py_print (tail_line fmt m)) (\<lambda>_. tail_loop fmt ms)"

definition cmd_tail :: "'d world \<Rightarrow> (string \<rightharpoonup> string) \<Rightarrow> string \<Rightarrow> int \<Rightarrow> unit io" where
  "cmd_tail w environ chat limit =
     io_bind (get_client w environ) (\<lambda>_.
       async_with w
         (io_bind (call (GetEntity chat) (get_entity_r w chat)) (\<lambda>ent.
          io_bind (call (GetMessages ent limit) (get_messages_r w ent limit)) (\<lambda>msgs.
            tail_loop (isoformat w) (rev msgs)))))"

text \<open>
  Line 88: the label of the chat \<^verbatim>\<open>c\<close> that \<^verbatim>\<open>m.get_chat()\<close> returned. \<^verbatim>\<open>None\<close> has none of
  the three attributes.
\<close>

definition search_title :: "pyobj option \<Rightarrow> pyval" where
  "search_title c =
     (let ob = (case c of None \<Rightarrow> [] | Some ent \<Rightarrow> ent) in
      py_or (getattr ob ''title'' PyNone)
        (py_or (getattr ob ''username'' PyNone) (getattr ob ''first_name'' PyNone)))"

text \<open>Lines 85 to 90: the value of \<^verbatim>\<open>chat\<close> for one search result.\<close>

definition search_chat :: "'d tg_message \<Rightarrow> pyval io" where
  "search_chat m =
     try_except
       (io_bind (call GetChat (get_chat m)) (\<lambda>c. io_return (search_title c)))
       (\<lambda>e. io_return (PyStr (py_str (getattr (attrs m) ''chat_id'' PyNone))))"

definition search_line :: "('d \<Rightarrow> string) \<Rightarrow> 'd tg_message \<Rightarrow> pyval \<Rightarrow> string" where
  "search_line fmt m chat =
     ''['' @ fmt (date m) @ ''] in '' @ py_str chat @ '': '' @ message_text m"

text \<open>
  The \<^verbatim>\<open>async for\<close> over the iterator: each step asks the iterator for the next message;
  after the last one the iterator is exhausted or raises.
\<close>

fun search_loop ::
  "('d \<Rightarrow> string) \<Rightarrow> client_call \<Rightarrow> 'd tg_message list \<Rightarrow> lib_exception option \<Rightarrow> unit io" where
  "search_loop fmt it [] fin =
     (case fin of None \<Rightarrow> call it (Inr ()) | Some e \<Rightarrow> call it (Inl e))"
| "search_loop fmt it (m # ms) fin =
     io_bind (call it (Inr ())) (\<lambda>_.
     io_bind (search_chat m) (\<lambda>chat.
     io_bind (py_print (search_line fmt m chat)) (\<lambda>_.
       search_loop fmt it ms fin)))"

definition cmd_search :: "'d world \<Rightarrow> (string \<rightharpoonup> string) \<Rightarrow> string \<Rightarrow> int \<Rightarrow> unit io" where
  "cmd_search w environ query limit =
     io_bind (get_client w environ) (\<lambda>_.
       async_with w
         (case iter_messages_r w query limit of (msgs, fin) \<Rightarrow>
            search_loop (isoformat w) (IterMessages query limit) msgs fin))"

definition cmd_login :: "'d world \<Rightarrow> (string \<rightharpoonup> string) \<Rightarrow> string option \<Rightarrow> unit io" where
  "cmd_login w environ phone =
     io_bind (get_client w environ) (\<lambda>_.
     io_bind (call Connect (connect_r w)) (\<lambda>_.
     io_bind (call IsUserAuthorized (is_user_authorized_r w)) (\<lambda>authorized.
     io_bind
       (if \<not> authorized then
          (if not_str phone then
             io_raise (SystemExit ''First-time login requires --phone +<countrycode><number>'')
           else
             io_bind (call (SendCodeRequest (the phone)) (send_code_request_r w (the phone))) (\<lambda>_.
             io_bind (py_input ''Enter the Telegram login code you received: '') (\<lambda>l.
               let code = strip l in
               try_except
                 (call (SignIn (the phone) code) (sign_in_r w (the phone) code))
                 (\<lambda>e. if contains ''password'' (lower (message_of e)) then
                        io_bind (py_input ''Enter your Telegram 2FA password: '') (\<lambda>pwd.
                          call (SignInPassword pwd) (sign_in_password_r w pwd))
                      else io_raise (Lib e)))))
        else io_return ()) (\<lambda>_.
     io_bind (call GetMe (get_me_r w)) (\<lambda>me.
     io_bind
       (case me of
          None \<Rightarrow> io_raise (AttributeError ''id'')
        | Some u \<Rightarrow>
            py_print (''Logged in as: '' @ str_int (user_id u) @ '' @''
                      @ py_str (getattr (user_attrs u) ''username'' PyNone))) (\<lambda>_.
       call Disconnect (disconnect_r w)))))))"

text \<open>The parsed command line: the sub-command and its arguments.\<close>

datatype args =
    Login "string option"
  | Dialogs int
  | Tail string int
  | Search string int

definition main :: "'d world \<Rightarrow> (string \<rightharpoonup> string) \<Rightarrow> args \<Rightarrow> unit io" where
  "main w environ a =
     (case a of
        Login phone \<Rightarrow> cmd_login w environ phone
      | Dialogs limit \<Rightarrow> cmd_dialogs w environ limit
      | Tail chat limit \<Rightarrow> cmd_tail w environ chat limit
      | Search query limit \<Rightarrow> cmd_search w environ query limit)"

text \<open>One run of the process: from an empty trace, with the lines waiting on standard input.\<close>

definition run :: "'d world \<Rightarrow> (string \<rightharpoonup> string) \<Rightarrow> string list \<Rightarrow> args \<Rightarrow> (error + unit) \<times> io_state" where
  "run w environ inp a = main w environ a \<lparr>trace = [], stdin = inp\<rparr>"

definition outcome :: "(error + unit) \<times> io_state \<Rightarrow> error + unit" where
  "outcome r = fst r"

definition events :: "(error + unit) \<times> io_state \<Rightarrow> event list" where
  "events r = trace (snd r)"

text \<open>The lines written by \<^verbatim>\<open>print\<close>, in order.\<close>

fun printed_of :: "event list \<Rightarrow> string list" where
  "printed_of [] = []"
| "printed_of (Print l # evs) = l # printed_of evs"
| "printed_of (_ # evs) = printed_of evs"

definition printed :: "(error + unit) \<times> io_state \<Rightarrow> string list" where
  "printed r = printed_of (events r)"

text \<open>
  The exit status of the process: 0 when the command returns; 1 when it ends with
  \<^verbatim>\<open>SystemExit\<close> raised with a message or with any other uncaught exception.
\<close>

definition exit_status :: "error + unit \<Rightarrow> int" where
  "exit_status r = (case r of Inl _ \<Rightarrow> 1 | Inr _ \<Rightarrow> 0)"

section \<open>Notions used in the statements\<close>

text \<open>
  The environment holds both credentials, the identifier reads as the integer \<open>n\<close>, and
  the library's constructor accepts them: \<open>get_client\<close> returns a handle.
\<close>

definition client_built :: "'d world \<Rightarrow> (string \<rightharpoonup> string) \<Rightarrow> int \<Rightarrow> string \<Rightarrow> bool" where
  "client_built w environ n h =
     ((case environ ''TG_API_ID'' of None \<Rightarrow> False | Some a \<Rightarrow> a \<noteq> [] \<and> py_int a = Some n)
      \<and> environ ''TG_API_HASH'' = Some h \<and> h \<noteq> []
      \<and> TelegramClient_r w SESSION_PATH n h = Inr ())"

text \<open>The exception a call raised, as the trace records it.\<close>

definition raised :: "lib_exception + 'a \<Rightarrow> lib_exception option" where
  "raised r = (case r of Inl e \<Rightarrow> Some e | Inr _ \<Rightarrow> None)"

text \<open>
  The label of a conversation as the specification words it: the first of title, username
  and first name, in that order, that is non-empty.
\<close>

definition label_spec :: "string option \<Rightarrow> string option \<Rightarrow> string option \<Rightarrow> string option" where
  "label_spec title username first_name =
     (case filter (\<lambda>x. x \<noteq> None \<and> x \<noteq> Some []) [title, username, first_name] of
        [] \<Rightarrow> None
      | x # _ \<Rightarrow> x)"

text \<open>
  A field of an entity as text: \<^verbatim>\<open>None\<close> when the attribute is absent or \<^verbatim>\<open>None\<close>;
  \<open>text_field\<close> holds when the attribute, if present, is a string or \<^verbatim>\<open>None\<close>.
\<close>

definition field :: "pyobj \<Rightarrow> string \<Rightarrow> string option" where
  "field ent name = (case map_of ent name of Some (PyStr s) \<Rightarrow> Some s | _ \<Rightarrow> None)"

definition text_field :: "pyobj \<Rightarrow> string \<Rightarrow> bool" where
  "text_field ent name = (case map_of ent name of Some (PyInt _) \<Rightarrow> False | _ \<Rightarrow> True)"

text \<open>
  The value of \<^verbatim>\<open>chat\<close> after lines 85 to 90 for a search result whose lookup returns, or
  raises an exception that \<^verbatim>\<open>except Exception\<close> catches.
\<close>

definition chat_label :: "'d tg_message \<Rightarrow> pyval" where
  "chat_label m =
     (case get_chat m of
        Inl e \<Rightarrow> PyStr (py_str (getattr (attrs m) ''chat_id'' PyNone))
      | Inr c \<Rightarrow> search_title c)"

text \<open>The events of one step of the search loop, for such a result.\<close>

definition hit_events :: "('d \<Rightarrow> string) \<Rightarrow> client_call \<Rightarrow> 'd tg_message \<Rightarrow> event list" where
  "hit_events fmt it m =
     [Call it None, Call GetChat (raised (get_chat m)), Print (search_line fmt m (chat_label m))]"

text \<open>
  The two places where the program catches an exception of the library: the chat lookup
  of a search result, and the first sign-in when the message mentions a password.
\<close>

definition caught :: "client_call \<Rightarrow> lib_exception \<Rightarrow> bool" where
  "caught c x =
     (case c of
        GetChat \<Rightarrow> derives_Exception x
      | SignIn _ _ \<Rightarrow> derives_Exception x \<and> contains ''password'' (lower (message_of x))
      | _ \<Rightarrow> False)"

text \<open>
  Over the events \<open>evs\<close> of a computation that ended with \<open>r\<close>: every exception the library
  raised, other than the caught ones, is how the computation ended, unless leaving the
  client raised in turn.
\<close>

definition uncaught_end :: "event list \<Rightarrow> error + 'a \<Rightarrow> bool" where
  "uncaught_end evs r =
     (\<forall>c x. Call c (Some x) \<in> set evs \<longrightarrow>
        caught c x \<or> r = Inl (Lib x) \<or> (\<exists>y. Call AExit (Some y) \<in> set evs \<and> r = Inl (Lib y)))"

definition propagates :: "'a io \<Rightarrow> bool" where
  "propagates m =
     (\<forall>st. \<exists>evs. trace (snd (m st)) = trace st @ evs \<and> uncaught_end evs (fst (m st)))"

section \<open>A fake backing service\<close>

definition good_env :: "string \<rightharpoonup> string" where
  "good_env = [''TG_API_ID'' \<mapsto> ''12345'', ''TG_API_HASH'' \<mapsto> ''0123abcd'']"

definition abc_dialogs :: "dialog list" where
  "abc_dialogs =
     [\<lparr>dialog_id = 101, entity = [(''title'', PyStr ''A'')]\<rparr>,
      \<lparr>dialog_id = 102, entity = [(''title'', PyStr ''B'')]\<rparr>,
      \<lparr>dialog_id = - 103, entity = [(''title'', PyStr ''C'')]\<rparr>]"

text \<open>Timestamps are natural numbers here, printed in decimal.\<close>

definition fake_service :: "nat world" where
  "fake_service =
     \<lparr>isoformat = str_nat,
      TelegramClient_r = (\<lambda>_ _ _. Inr ()),
      connect_r = Inr (),
      is_user_authorized_r = Inr True,
      send_code_request_r = (\<lambda>_. Inr ()),
      sign_in_r = (\<lambda>_ _. Inr ()),
      sign_in_password_r = (\<lambda>_. Inr ()),
      get_me_r = Inr (Some \<lparr>user_id = 777, user_attrs = [(''username'', PyStr ''alice'')]\<rparr>),
      disconnect_r = Inr (),
      aenter_r = Inr (),
      aexit_r = Inr (),
      get_dialogs_r = (\<lambda>n. Inr (take (nat n) abc_dialogs)),
      get_entity_r = (\<lambda>_. Inr []),
      get_messages_r = (\<lambda>_ _. Inr []),
      iter_messages_r = (\<lambda>_ _. ([], None))\<rparr>"

definition msg_early :: "nat tg_message" where
  "msg_early = \<lparr>message = Some ''hello'', date = 10, attrs = [], get_chat = Inr None\<rparr>"

definition msg_empty :: "nat tg_message" where
  "msg_empty = \<lparr>message = None, date = 20, attrs = [], get_chat = Inr None\<rparr>"

definition msg_late :: "nat tg_message" where
  "msg_late =
     \<lparr>message = Some (''line1'' @ [newline] @ ''line2''), date = 30, attrs = [],
      get_chat = Inr None\<rparr>"

text \<open>The library's order: newest first.\<close>

definition newest_first_service :: "nat world" where
  "newest_first_service =
     fake_service\<lparr>get_messages_r := (\<lambda>_ _. Inr [msg_late, msg_empty, msg_early])\<rparr>"

text \<open>An upstream that returns the oldest message first.\<close>

definition oldest_first_service :: "nat world" where
  "oldest_first_service = fake_service\<lparr>get_messages_r := (\<lambda>_ _. Inr [msg_early, msg_late])\<rparr>"

definition lookup_error :: lib_exception where
  "lookup_error = LibException True ''Could not find the input entity''"

definition hit_titled :: "nat tg_message" where
  "hit_titled =
     \<lparr>message = Some ''foo bar'', date = 5, attrs = [(''chat_id'', PyInt 42)],
      get_chat = Inr (Some [(''title'', PyStr ''Work'')])\<rparr>"

definition hit_unresolved :: "nat tg_message" where
  "hit_unresolved =
     \<lparr>message = Some ''foo'', date = 4, attrs = [(''chat_id'', PyInt (- 1001234))],
      get_chat = Inl lookup_error\<rparr>"

definition hit_bare :: "nat tg_message" where
  "hit_bare = \<lparr>message = Some ''bar'', date = 3, attrs = [], get_chat = Inl lookup_error\<rparr>"

definition search_service :: "nat world" where
  "search_service =
     fake_service\<lparr>iter_messages_r := (\<lambda>_ _. ([hit_titled, hit_unresolved, hit_bare], None))\<rparr>"

definition password_needed :: lib_exception where
  "password_needed =
     LibException True ''Two-steps verification is enabled and a Password is required''"

definition code_invalid :: lib_exception where
  "code_invalid = LibException True ''The phone code entered was invalid''"

definition second_factor_service :: "nat world" where
  "second_factor_service =
     fake_service\<lparr>is_user_authorized_r := Inr False, sign_in_r := (\<lambda>_ _. Inl password_needed)\<rparr>"

definition bad_code_service :: "nat world" where
  "bad_code_service =
     fake_service\<lparr>is_user_authorized_r := Inr False, sign_in_r := (\<lambda>_ _. Inl code_invalid)\<rparr>"

definition nameless_dialog :: dialog where
  "nameless_dialog = \<lparr>dialog_id = 7, entity = []\<rparr>"

definition flood_wait :: lib_exception where
  "flood_wait = LibException True ''A wait of 30 seconds is required''"

definition failing_service :: "nat world" where
  "failing_service = fake_service\<lparr>get_dialogs_r := (\<lambda>_. Inl flood_wait)\<rparr>"

definition nameless_service :: "nat world" where
  "nameless_service = fake_service\<lparr>get_dialogs_r := (\<lambda>_. Inr [nameless_dialog])\<rparr>"

definition sample_entity :: pyobj where
  "sample_entity = [(''title'', PyStr []), (''username'', PyStr ''bob''), (''first_name'', PyStr ''Bob'')]"

section \<open>Basic facts about the model\<close>

text \<open>\<open>contains\<close> is the substring test.\<close>

lemma startswith_iff: "startswith s p \<longleftrightarrow> (\<exists>b. s = p @ b)"
  by (induction s p rule: startswith.induct) auto

lemma contains_iff: "contains p s \<longleftrightarrow> (\<exists>a b. s = a @ p @ b)"
proof (induction s)
  case Nil
  show ?case by auto
next
  case (Cons c cs)
  note IH = Cons.IH
  show ?case
  proof
    assume "contains p (c # cs)"
    then consider "startswith (c # cs) p" | "contains p cs"
      by auto
    then show "\<exists>a b. c # cs = a @ p @ b"
    proof cases
      case 1
      then obtain b where "c # cs = [] @ p @ b"
        by (auto simp: startswith_iff)
      then show ?thesis by blast
    next
      case 2
      then obtain a b where "cs = a @ p @ b"
        using IH by blast
      then have "c # cs = (c # a) @ p @ b"
        by simp
      then show ?thesis by blast
    qed
  next
    assume "\<exists>a b. c # cs = a @ p @ b"
    then obtain a b where ab: "c # cs = a @ p @ b"
      by blast
    show "contains p (c # cs)"
    proof (cases a)
      case Nil
      with ab have "startswith (c # cs) p"
        by (auto simp: startswith_iff)
      then show ?thesis by simp
    next
      case (Cons x xs)
      with ab have "cs = xs @ p @ b"
        by simp
      then have "contains p cs"
        using IH by blast
      then show ?thesis by simp
    qed
  qed
qed

lemma printed_of_append: "printed_of (xs @ ys) = printed_of xs @ printed_of ys"
  by (induction xs rule: printed_of.induct) simp_all

lemma printed_of_map_Print: "printed_of (map Print ls) = ls"
  by (induction ls) simp_all

lemma dialogs_loop_run:
  "dialogs_loop ds st = (Inr (), st\<lparr>trace := trace st @ map (\<lambda>d. Print (dialogs_line d)) ds\<rparr>)"
proof (induction ds arbitrary: st)
  case Nil
  show ?case by (simp add: io_return_def)
next
  case (Cons d ds)
  show ?case by (simp add: io_bind_def py_print_def log_def Cons.IH)
qed

lemma tail_loop_run:
  "tail_loop fmt ms st = (Inr (), st\<lparr>trace := trace st @ map (\<lambda>m. Print (tail_line fmt m)) ms\<rparr>)"
proof (induction ms arbitrary: st)
  case Nil
  show ?case by (simp add: io_return_def)
next
  case (Cons m ms)
  show ?case by (simp add: io_bind_def py_print_def log_def Cons.IH)
qed

lemma get_client_missing:
  assumes "environ ''TG_API_ID'' = None \<or> environ ''TG_API_ID'' = Some []
         \<or> environ ''TG_API_HASH'' = None \<or> environ ''TG_API_HASH'' = Some []"
  shows "get_client w environ st =
           (Inl (SystemExit ''Missing TG_API_ID/TG_API_HASH (check /opt/openclaw/secret/tg.env)''), st)"
  using assms by (auto simp: get_client_def not_str_def io_raise_def)

lemma get_client_invalid:
  assumes "environ ''TG_API_ID'' = Some a" "a \<noteq> []" "py_int a = None"
      and "environ ''TG_API_HASH'' = Some h" "h \<noteq> []"
  shows "get_client w environ st = (Inl (ValueError a), st)"
  using assms by (simp add: get_client_def not_str_def io_raise_def)

lemma get_client_built:
  assumes "client_built w environ n h"
  shows "get_client w environ st = (Inr (), log (Call (TelegramClient SESSION_PATH n h) None) st)"
  using assms
  by (auto simp: client_built_def get_client_def not_str_def call_def split: option.splits)

lemma client_built_fake: "client_built fake_service good_env 12345 ''0123abcd''"
  by (simp add: client_built_def good_env_def fake_service_def py_int_def strip_def is_space_def
      is_digit_def digit_val_def)

text \<open>Every command starts with \<open>get_client\<close>; when that raises, so does the command.\<close>

lemma main_get_client_fails:
  assumes "get_client w environ st = (Inl e, st')"
  shows "main w environ a st = (Inl e, st')"
  using assms
  by (cases a) (simp_all add: main_def cmd_login_def cmd_dialogs_def cmd_tail_def cmd_search_def
      io_bind_def)

section \<open>Credentials\<close>

text \<open>
  Claim C4. Whatever the command, when \<^verbatim>\<open>TG_API_ID\<close> or \<^verbatim>\<open>TG_API_HASH\<close> is absent from the
  environment or is the empty string, the process ends with \<^verbatim>\<open>SystemExit\<close> and the message
  naming the two keys and the file, with a non-zero exit status, and the trace is empty:
  the client handle was not constructed and the library was never called.
\<close>

theorem missing_credentials_abort:
  assumes "environ ''TG_API_ID'' = None \<or> environ ''TG_API_ID'' = Some []
         \<or> environ ''TG_API_HASH'' = None \<or> environ ''TG_API_HASH'' = Some []"
  shows "run w environ inp a =
           (Inl (SystemExit ''Missing TG_API_ID/TG_API_HASH (check /opt/openclaw/secret/tg.env)''),
            \<lparr>trace = [], stdin = inp\<rparr>)
         \<and> events (run w environ inp a) = []
         \<and> exit_status (outcome (run w environ inp a)) \<noteq> 0"
proof -
  have "main w environ a \<lparr>trace = [], stdin = inp\<rparr> =
          (Inl (SystemExit ''Missing TG_API_ID/TG_API_HASH (check /opt/openclaw/secret/tg.env)''),
           \<lparr>trace = [], stdin = inp\<rparr>)"
    by (rule main_get_client_fails [OF get_client_missing [OF assms]])
  then show ?thesis
    by (simp add: run_def events_def outcome_def exit_status_def)
qed

text \<open>The hash is missing for \<^verbatim>\<open>dialogs\<close>; it is empty for \<^verbatim>\<open>login\<close>.\<close>

theorem missing_credentials_abort_witness:
  "run fake_service [''TG_API_ID'' \<mapsto> ''12345''] [] (Dialogs 30) =
     (Inl (SystemExit ''Missing TG_API_ID/TG_API_HASH (check /opt/openclaw/secret/tg.env)''),
      \<lparr>trace = [], stdin = []\<rparr>)
   \<and> run fake_service [''TG_API_ID'' \<mapsto> ''12345'', ''TG_API_HASH'' \<mapsto> ''''] [''x''] (Login None) =
     (Inl (SystemExit ''Missing TG_API_ID/TG_API_HASH (check /opt/openclaw/secret/tg.env)''),
      \<lparr>trace = [], stdin = [''x'']\<rparr>)"
  using missing_credentials_abort [of "[''TG_API_ID'' \<mapsto> ''12345'']" fake_service "[]" "Dialogs 30"]
    missing_credentials_abort [of "[''TG_API_ID'' \<mapsto> ''12345'', ''TG_API_HASH'' \<mapsto> '''']"
      fake_service "[''x'']" "Login None"]
  by simp

text \<open>
  Claim C9. When \<^verbatim>\<open>TG_API_ID\<close> is a non-empty (ASCII) string that \<^verbatim>\<open>int()\<close> rejects and
  \<^verbatim>\<open>TG_API_HASH\<close> is non-empty, the emptiness check of \<open>get_client\<close> passes and the
  conversion raises \<^verbatim>\<open>ValueError\<close>; nothing catches it, so every command ends with it, with
  a non-zero exit status and an empty trace: no client handle, no call into the library.
\<close>

theorem invalid_api_id_value_error:
  assumes "environ ''TG_API_ID'' = Some a" "a \<noteq> []" "is_ascii a" "py_int a = None"
      and "environ ''TG_API_HASH'' = Some h" "h \<noteq> []"
  shows "\<not> (not_str (environ ''TG_API_ID'') \<or> not_str (environ ''TG_API_HASH''))
         \<and> get_client w environ st = (Inl (ValueError a), st)
         \<and> run w environ inp args = (Inl (ValueError a), \<lparr>trace = [], stdin = inp\<rparr>)
         \<and> events (run w environ inp args) = []
         \<and> exit_status (outcome (run w environ inp args)) \<noteq> 0"
proof -
  note gc = get_client_invalid [OF assms(1,2,4,5,6)]
  have "main w environ args \<lparr>trace = [], stdin = inp\<rparr> =
          (Inl (ValueError a), \<lparr>trace = [], stdin = inp\<rparr>)"
    by (rule main_get_client_fails [OF gc])
  then show ?thesis
    using assms by (simp add: gc run_def events_def outcome_def exit_status_def not_str_def)
qed

theorem invalid_api_id_value_error_witness:
  "py_int ''12a'' = None \<and> is_ascii ''12a''
   \<and> run fake_service [''TG_API_ID'' \<mapsto> ''12a'', ''TG_API_HASH'' \<mapsto> ''0123abcd''] []
         (Search ''foo'' 20) =
       (Inl (ValueError ''12a''), \<lparr>trace = [], stdin = []\<rparr>)"
proof -
  have inv: "py_int ''12a'' = None"
    by (simp add: py_int_def strip_def is_space_def is_digit_def digit_val_def)
  have asc: "is_ascii ''12a''"
    by (simp add: is_ascii_def)
  show ?thesis
    using invalid_api_id_value_error
        [of "[''TG_API_ID'' \<mapsto> ''12a'', ''TG_API_HASH'' \<mapsto> ''0123abcd'']"
        "''12a''" "''0123abcd''" fake_service _ "[]" "Search ''foo'' 20"] inv asc
    by simp
qed

section \<open>Login\<close>

text \<open>
  Claim C8. \<^verbatim>\<open>login\<close> with no \<^verbatim>\<open>--phone\<close> on a session that is not authorized ends with
  \<^verbatim>\<open>SystemExit\<close> and the usage message, with a non-zero exit status; the library was called
  to construct the handle, to connect and to check the authorization, and for nothing
  else: no code request was sent.
\<close>

theorem login_without_phone:
  assumes "client_built w environ n h" "connect_r w = Inr ()" "is_user_authorized_r w = Inr False"
  shows "run w environ inp (Login None) =
           (Inl (SystemExit ''First-time login requires --phone +<countrycode><number>''),
            \<lparr>trace = [Call (TelegramClient SESSION_PATH n h) None, Call Connect None,
                       Call IsUserAuthorized None],
             stdin = inp\<rparr>)
         \<and> exit_status (outcome (run w environ inp (Login None))) \<noteq> 0"
  using assms(2,3)
  by (simp add: run_def main_def cmd_login_def io_bind_def get_client_built [OF assms(1)]
      call_def log_def not_str_def io_raise_def outcome_def exit_status_def)

theorem login_without_phone_witness:
  "run bad_code_service good_env [''12345''] (Login None) =
     (Inl (SystemExit ''First-time login requires --phone +<countrycode><number>''),
      \<lparr>trace = [Call (TelegramClient SESSION_PATH 12345 ''0123abcd'') None, Call Connect None,
                 Call IsUserAuthorized None],
       stdin = [''12345'']\<rparr>)"
proof -
  have "client_built bad_code_service good_env 12345 ''0123abcd''"
    using client_built_fake by (simp add: client_built_def bad_code_service_def fake_service_def)
  from login_without_phone [OF this, of "[''12345'']"] show ?thesis
    by (simp add: bad_code_service_def fake_service_def)
qed

section \<open>Runs of dialogs and tail\<close>

lemma async_with_run:
  assumes "aenter_r w = Inr ()" "body (log (Call AEnter None) st) = (r, st')"
  shows "async_with w body st =
           (case aexit_r w of
              Inl e \<Rightarrow> (Inl (Lib e), log (Call AExit (Some e)) st')
            | Inr _ \<Rightarrow> (r, log (Call AExit None) st'))"
  using assms by (simp add: async_with_def io_bind_def call_def split: sum.splits)

lemma cmd_dialogs_events:
  assumes "client_built w environ n h" "aenter_r w = Inr ()" "get_dialogs_r w N = Inr ds"
  shows "events (run w environ inp (Dialogs N)) =
           [Call (TelegramClient SESSION_PATH n h) None, Call AEnter None, Call (GetDialogs N) None]
           @ map (\<lambda>d. Print (dialogs_line d)) ds @ [Call AExit (raised (aexit_r w))]"
proof -
  let ?st = "log (Call (TelegramClient SESSION_PATH n h) None) \<lparr>trace = [], stdin = inp\<rparr>"
  let ?body = "io_bind (call (GetDialogs N) (get_dialogs_r w N)) (\<lambda>dialogs. dialogs_loop dialogs)"
  have body: "?body (log (Call AEnter None) ?st) =
      (Inr (), \<lparr>trace = [Call (TelegramClient SESSION_PATH n h) None, Call AEnter None,
                Call (GetDialogs N) None] @ map (\<lambda>d. Print (dialogs_line d)) ds, stdin = inp\<rparr>)"
    by (simp add: io_bind_def call_def assms(3) dialogs_loop_run log_def)
  have "run w environ inp (Dialogs N) = async_with w ?body ?st"
    by (simp add: run_def main_def cmd_dialogs_def io_bind_def get_client_built [OF assms(1)])
  also note async_with_run [where body = "?body" and st = "?st", OF assms(2) body]
  finally show ?thesis
    by (simp add: events_def raised_def log_def split: sum.splits)
qed

lemma cmd_tail_events:
  assumes "client_built w environ n h" "aenter_r w = Inr ()" "get_entity_r w chat = Inr ent"
    and "get_messages_r w ent N = Inr msgs"
  shows "events (run w environ inp (Tail chat N)) =
           [Call (TelegramClient SESSION_PATH n h) None, Call AEnter None, Call (GetEntity chat) None,
            Call (GetMessages ent N) None]
           @ map (\<lambda>m. Print (tail_line (isoformat w) m)) (rev msgs)
           @ [Call AExit (raised (aexit_r w))]"
proof -
  let ?st = "log (Call (TelegramClient SESSION_PATH n h) None) \<lparr>trace = [], stdin = inp\<rparr>"
  let ?body = "io_bind (call (GetEntity chat) (get_entity_r w chat)) (\<lambda>ent.
          io_bind (call (GetMessages ent N) (get_messages_r w ent N)) (\<lambda>msgs.
            tail_loop (isoformat w) (rev msgs)))"
  have body: "?body (log (Call AEnter None) ?st) =
      (Inr (), \<lparr>trace = [Call (TelegramClient SESSION_PATH n h) None, Call AEnter None,
                Call (GetEntity chat) None, Call (GetMessages ent N) None]
                @ map (\<lambda>m. Print (tail_line (isoformat w) m)) (rev msgs), stdin = inp\<rparr>)"
    by (simp add: io_bind_def call_def assms(3,4) tail_loop_run log_def)
  have "run w environ inp (Tail chat N) = async_with w ?body ?st"
    by (simp add: run_def main_def cmd_tail_def io_bind_def get_client_built [OF assms(1)])
  also note async_with_run [where body = "?body" and st = "?st", OF assms(2) body]
  finally show ?thesis
    by (simp add: events_def raised_def log_def split: sum.splits)
qed

lemma printed_of_map_Print_fun: "printed_of (map (\<lambda>x. Print (f x)) xs) = map f xs"
  by (induction xs) simp_all

lemma cmd_dialogs_printed:
  assumes "client_built w environ n h" "aenter_r w = Inr ()" "get_dialogs_r w N = Inr ds"
  shows "printed (run w environ inp (Dialogs N)) = map dialogs_line ds"
  by (simp add: printed_def cmd_dialogs_events [OF assms] printed_of_append printed_of_map_Print_fun)

lemma cmd_tail_printed:
  assumes "client_built w environ n h" "aenter_r w = Inr ()" "get_entity_r w chat = Inr ent"
    and "get_messages_r w ent N = Inr msgs"
  shows "printed (run w environ inp (Tail chat N)) = map (tail_line (isoformat w)) (rev msgs)"
  by (simp add: printed_def cmd_tail_events [OF assms] printed_of_append printed_of_map_Print_fun)

section \<open>Dialogs\<close>

text \<open>
  Claim C5. \<^verbatim>\<open>dialogs\<close> with limit \<open>N\<close> (not negative) against a service that holds the
  conversations \<open>convs\<close> and returns the first \<open>N\<close> of them prints one line per returned
  conversation, in the order returned: the identifier, a tab, the label. The number of
  lines is the smaller of \<open>N\<close> and the number of conversations. With the conversations
  titled A, B and C and limit 2 the output is the line for A, then the line for B.
\<close>

theorem dialogs_lines_in_order:
  assumes "client_built w environ n h" "aenter_r w = Inr ()" "0 \<le> N"
    and "get_dialogs_r w N = Inr (take (nat N) convs)"
  shows "printed (run w environ inp (Dialogs N)) =
           map (\<lambda>d. str_int (dialog_id d) @ [tab] @ py_str (dialogs_title (entity d)))
             (take (nat N) convs)
         \<and> int (length (printed (run w environ inp (Dialogs N)))) = min N (int (length convs))"
  using assms(3)
  by (auto simp: cmd_dialogs_printed [OF assms(1,2,4)] dialogs_line_def)

theorem dialogs_lines_in_order_witness:
  "printed (run fake_service good_env [] (Dialogs 2)) = [''101'' @ [tab] @ ''A'', ''102'' @ [tab] @ ''B'']
   \<and> length abc_dialogs = 3"
proof -
  have g: "get_dialogs_r fake_service 2 = Inr (take (nat 2) abc_dialogs)"
    by (simp add: fake_service_def)
  have a: "aenter_r fake_service = Inr ()"
    by (simp add: fake_service_def)
  have s: "str_int 101 = ''101''" "str_int 102 = ''102''"
    by (simp_all add: str_int_def str_nat.simps digit_chr_def)
  from dialogs_lines_in_order [OF client_built_fake a _ g, where inp = "[]"] show ?thesis
    by (simp add: abc_dialogs_def dialogs_title_def getattr_def py_or_def s)
qed


lemma str_nat_small: "n < 10 \<Longrightarrow> str_nat n = [digit_chr n]"
  by (simp add: str_nat.simps)

lemma str_nat_two: "10 \<le> n \<Longrightarrow> n < 100 \<Longrightarrow> str_nat n = [digit_chr (n div 10), digit_chr (n mod 10)]"
  by (subst str_nat.simps) (simp add: str_nat_small)

lemma str_nat_samples: "str_nat 10 = ''10''" "str_nat 20 = ''20''" "str_nat 30 = ''30''"
  by (simp_all add: str_nat_two digit_chr_def)

section \<open>Tail\<close>

text \<open>
  Claim C7. \<^verbatim>\<open>tail\<close> prints, for each message, the timestamp in brackets, a space and the
  text. The text of a message with body \<open>b\<close> is \<open>b\<close> with every newline character replaced
  by one space (same length, no newline left); a message whose body is \<^verbatim>\<open>None\<close> or empty
  has the empty text, so its line ends after the space that follows the timestamp.
\<close>

theorem tail_newlines_to_spaces:
  assumes "client_built w environ n h" "aenter_r w = Inr ()" "get_entity_r w chat = Inr ent"
    and "get_messages_r w ent N = Inr msgs"
  shows "printed (run w environ inp (Tail chat N)) =
           map (\<lambda>m. ''['' @ isoformat w (date m) @ ''] '' @ message_text m) (rev msgs)
         \<and> (message m = Some b \<longrightarrow>
              message_text m = map (\<lambda>c. if c = CHR 0x0A then CHR '' '' else c) b
              \<and> length (message_text m) = length b
              \<and> CHR 0x0A \<notin> set (message_text m))
         \<and> (message m = None \<or> message m = Some [] \<longrightarrow> message_text m = [])"
  by (auto simp: cmd_tail_printed [OF assms] tail_line_def message_text_def replace_def newline_def)

theorem tail_newlines_to_spaces_witness:
  "printed (run newest_first_service good_env [] (Tail ''@chat'' 50)) =
     [''[10] hello'', ''[20] '', ''[30] line1 line2'']
   \<and> message msg_late = Some (''line1'' @ [CHR 0x0A] @ ''line2'')
   \<and> message_text msg_late = ''line1 line2''
   \<and> message msg_empty = None \<and> message_text msg_empty = []"
proof -
  have b: "client_built newest_first_service good_env 12345 ''0123abcd''"
    using client_built_fake by (simp add: client_built_def newest_first_service_def fake_service_def)
  have a: "aenter_r newest_first_service = Inr ()"
    and e: "get_entity_r newest_first_service ''@chat'' = Inr []"
    and g: "get_messages_r newest_first_service [] 50 = Inr [msg_late, msg_empty, msg_early]"
    by (simp_all add: newest_first_service_def fake_service_def)
  have l: "message msg_late = Some (''line1'' @ [CHR 0x0A] @ ''line2'')"
    by (simp add: msg_late_def newline_def)
  have i: "isoformat newest_first_service = str_nat"
    by (simp add: newest_first_service_def fake_service_def)
  from tail_newlines_to_spaces
      [OF b a e g, where m = msg_late and b = "''line1'' @ [CHR 0x0A] @ ''line2''" and inp = "[]"]
    tail_newlines_to_spaces [OF b a e g, where m = msg_empty and inp = "[]"] l
  show ?thesis
    by (simp add: i str_nat_samples msg_late_def msg_empty_def msg_early_def message_text_def
        replace_def newline_def)
qed

text \<open>
  Claim C1 says that the lines of \<^verbatim>\<open>tail\<close> are in non-decreasing timestamp order whatever
  the order in which \<^verbatim>\<open>get_messages\<close> returns the messages. The program reverses what it
  receives and does not sort: when the upstream returns the message of time 10 before the
  message of time 30, the line of time 30 is printed first.
\<close>

theorem tail_sorted_counterexample:
  "printed (run oldest_first_service good_env [] (Tail ''@chat'' 50)) =
     [''[30] line1 line2'', ''[10] hello'']
   \<and> get_messages_r oldest_first_service [] 50 = Inr [msg_early, msg_late]
   \<and> date msg_early = 10 \<and> date msg_late = 30
   \<and> \<not> sorted (map date (rev [msg_early, msg_late]))"
proof -
  have b: "client_built oldest_first_service good_env 12345 ''0123abcd''"
    using client_built_fake by (simp add: client_built_def oldest_first_service_def fake_service_def)
  have a: "aenter_r oldest_first_service = Inr ()"
    and e: "get_entity_r oldest_first_service ''@chat'' = Inr []"
    and g: "get_messages_r oldest_first_service [] 50 = Inr [msg_early, msg_late]"
    and i: "isoformat oldest_first_service = str_nat"
    by (simp_all add: oldest_first_service_def fake_service_def)
  from cmd_tail_printed [OF b a e g, where inp = "[]"] g show ?thesis
    by (simp add: i str_nat_samples msg_late_def msg_early_def message_text_def tail_line_def
        replace_def newline_def)
qed

text \<open>
  Claim C1, amended. \<^verbatim>\<open>tail\<close> prints the messages in the reverse of the order in which
  \<^verbatim>\<open>get_messages\<close> returned them; when that order is newest first (timestamps not
  increasing, the order of the client library), the printed lines are in non-decreasing
  timestamp order, oldest first.
\<close>

theorem tail_oldest_first:
  fixes w :: "('d::linorder) world"
  assumes "client_built w environ n h" "aenter_r w = Inr ()" "get_entity_r w chat = Inr ent"
    and "get_messages_r w ent N = Inr msgs"
    and "sorted (rev (map date msgs))"
  shows "printed (run w environ inp (Tail chat N)) = map (tail_line (isoformat w)) (rev msgs)
         \<and> sorted (map date (rev msgs))"
  using assms(5) by (simp add: cmd_tail_printed [OF assms(1-4)] rev_map)

theorem tail_oldest_first_witness:
  "printed (run newest_first_service good_env [] (Tail ''@chat'' 50)) =
     [''[10] hello'', ''[20] '', ''[30] line1 line2'']
   \<and> map date (rev [msg_late, msg_empty, msg_early]) = [10, 20, 30]"
proof -
  have b: "client_built newest_first_service good_env 12345 ''0123abcd''"
    using client_built_fake by (simp add: client_built_def newest_first_service_def fake_service_def)
  have a: "aenter_r newest_first_service = Inr ()"
    and e: "get_entity_r newest_first_service ''@chat'' = Inr []"
    and g: "get_messages_r newest_first_service [] 50 = Inr [msg_late, msg_empty, msg_early]"
    and i: "isoformat newest_first_service = str_nat"
    by (simp_all add: newest_first_service_def fake_service_def)
  have s: "sorted (rev (map date [msg_late, msg_empty, msg_early]))"
    by (simp add: msg_late_def msg_empty_def msg_early_def)
  from tail_oldest_first [OF b a e g s, where inp = "[]"] show ?thesis
    by (simp add: i str_nat_samples msg_late_def msg_empty_def msg_early_def message_text_def
        tail_line_def replace_def newline_def)
qed

section \<open>Labels\<close>

text \<open>
  Claim C6. On the same entity, the label that \<^verbatim>\<open>dialogs\<close> computes (line 65) and the
  label that \<^verbatim>\<open>search\<close> computes (line 88) are equal; and when the three fields are
  strings or missing and one of them is non-empty, both are the first non-empty one of
  title, username and first name, in that order (\<open>label_spec\<close>).
\<close>

theorem label_same_in_dialogs_and_search:
  "dialogs_title ent = search_title (Some ent)
   \<and> (text_field ent ''title'' \<and> text_field ent ''username'' \<and> text_field ent ''first_name''
        \<and> label_spec (field ent ''title'') (field ent ''username'') (field ent ''first_name'') = Some s
      \<longrightarrow> dialogs_title ent = PyStr s \<and> search_title (Some ent) = PyStr s \<and> s \<noteq> [])"
  by (auto simp: dialogs_title_def search_title_def label_spec_def field_def text_field_def
      getattr_def py_or_def split: option.splits pyval.splits if_splits)

theorem label_same_in_dialogs_and_search_witness:
  "dialogs_title sample_entity = PyStr ''bob'' \<and> search_title (Some sample_entity) = PyStr ''bob''
   \<and> label_spec (field sample_entity ''title'') (field sample_entity ''username'')
        (field sample_entity ''first_name'') = Some ''bob''"
proof -
  have t: "text_field sample_entity ''title''" "text_field sample_entity ''username''"
      "text_field sample_entity ''first_name''"
    by (simp_all add: text_field_def sample_entity_def)
  have l: "label_spec (field sample_entity ''title'') (field sample_entity ''username'')
        (field sample_entity ''first_name'') = Some ''bob''"
    by (simp add: label_spec_def field_def sample_entity_def)
  from label_same_in_dialogs_and_search [of sample_entity "''bob''"] t l show ?thesis
    by simp
qed

section \<open>Search\<close>

lemma search_chat_run:
  assumes "\<And>e. get_chat m = Inl e \<Longrightarrow> derives_Exception e"
  shows "search_chat m st = (Inr (chat_label m), log (Call GetChat (raised (get_chat m))) st)"
proof (cases "get_chat m")
  case (Inl e)
  with assms [OF Inl] show ?thesis
    by (simp add: search_chat_def try_except_def io_bind_def call_def io_return_def chat_label_def
        raised_def)
next
  case (Inr c)
  then show ?thesis
    by (simp add: search_chat_def try_except_def io_bind_def call_def io_return_def chat_label_def
        raised_def)
qed

lemma search_loop_run:
  assumes "\<forall>m\<in>set ms. \<forall>e. get_chat m = Inl e \<longrightarrow> derives_Exception e"
  shows "search_loop fmt it ms fin st =
           ((case fin of None \<Rightarrow> Inr () | Some e \<Rightarrow> Inl (Lib e)),
            st\<lparr>trace := trace st @ concat (map (hit_events fmt it) ms) @ [Call it fin]\<rparr>)"
  using assms
proof (induction ms arbitrary: st)
  case Nil
  show ?case by (simp add: call_def log_def split: option.splits)
next
  case (Cons m ms)
  have c: "search_chat m st' = (Inr (chat_label m), log (Call GetChat (raised (get_chat m))) st')" for st'
    using Cons.prems by (intro search_chat_run) simp
  have ih: "search_loop fmt it ms fin st' =
           ((case fin of None \<Rightarrow> Inr () | Some e \<Rightarrow> Inl (Lib e)),
            st'\<lparr>trace := trace st' @ concat (map (hit_events fmt it) ms) @ [Call it fin]\<rparr>)" for st'
    using Cons.prems by (intro Cons.IH) simp
  have "search_loop fmt it (m # ms) fin st =
          ((case fin of None \<Rightarrow> Inr () | Some e \<Rightarrow> Inl (Lib e)),
           st\<lparr>trace := trace st @ hit_events fmt it m @ concat (map (hit_events fmt it) ms)
                     @ [Call it fin]\<rparr>)"
    unfolding hit_events_def [of fmt it m]
    by (simp add: io_bind_def call_def c ih py_print_def log_def)
  then show ?case by simp
qed

lemma printed_of_hits:
  "printed_of (concat (map (hit_events fmt it) ms)) = map (\<lambda>m. search_line fmt m (chat_label m)) ms"
  by (induction ms) (simp_all add: hit_events_def)

lemma cmd_search_run:
  assumes "client_built w environ n h" "aenter_r w = Inr ()" "iter_messages_r w q N = (ms, fin)"
    and "\<forall>m\<in>set ms. \<forall>e. get_chat m = Inl e \<longrightarrow> derives_Exception e"
  shows "run w environ inp (Search q N) =
           ((case aexit_r w of
               Inl x \<Rightarrow> Inl (Lib x)
             | Inr _ \<Rightarrow> (case fin of None \<Rightarrow> Inr () | Some x \<Rightarrow> Inl (Lib x))),
            \<lparr>trace = [Call (TelegramClient SESSION_PATH n h) None, Call AEnter None]
                     @ concat (map (hit_events (isoformat w) (IterMessages q N)) ms)
                     @ [Call (IterMessages q N) fin, Call AExit (raised (aexit_r w))],
             stdin = inp\<rparr>)"
proof -
  let ?st = "log (Call (TelegramClient SESSION_PATH n h) None) \<lparr>trace = [], stdin = inp\<rparr>"
  let ?body = "case iter_messages_r w q N of (msgs, fin) \<Rightarrow>
            search_loop (isoformat w) (IterMessages q N) msgs fin"
  have body: "?body (log (Call AEnter None) ?st) =
      ((case fin of None \<Rightarrow> Inr () | Some x \<Rightarrow> Inl (Lib x)),
       \<lparr>trace = [Call (TelegramClient SESSION_PATH n h) None, Call AEnter None]
                 @ concat (map (hit_events (isoformat w) (IterMessages q N)) ms)
                 @ [Call (IterMessages q N) fin], stdin = inp\<rparr>)"
    by (simp add: assms(3) search_loop_run [OF assms(4)] log_def)
  have "run w environ inp (Search q N) = async_with w ?body ?st"
    by (simp add: run_def main_def cmd_search_def io_bind_def get_client_built [OF assms(1)])
  also note async_with_run [where body = "?body" and st = "?st", OF assms(2) body]
  finally show ?thesis
    by (simp add: raised_def log_def split: sum.splits)
qed

lemma str_nat_nonempty: "str_nat n \<noteq> []"
  by (subst str_nat.simps) simp

lemma str_int_nonempty: "str_int k \<noteq> []"
  by (simp add: str_int_def str_nat_nonempty)

text \<open>
  Claim C2. In \<^verbatim>\<open>search\<close>, when the chat lookup of a result raises an exception (one
  that derives from \<^verbatim>\<open>Exception\<close>) and the result's \<^verbatim>\<open>chat_id\<close> is the integer \<open>k\<close>, the
  label printed after \<^verbatim>\<open>in\<close> on that result's line is \<open>k\<close> in decimal, which is not empty.
  The exception does not propagate: every result still gets its line, and how the command
  ends depends only on the iterator and on leaving the client.
\<close>

theorem search_label_fallback:
  assumes "client_built w environ n h" "aenter_r w = Inr ()" "iter_messages_r w q N = (ms, fin)"
    and "\<forall>m\<in>set ms. \<forall>x. get_chat m = Inl x \<longrightarrow> derives_Exception x"
    and "i < length ms" "get_chat (ms ! i) = Inl e"
    and "getattr (attrs (ms ! i)) ''chat_id'' PyNone = PyInt k"
  shows "length (printed (run w environ inp (Search q N))) = length ms
         \<and> printed (run w environ inp (Search q N)) ! i =
             ''['' @ isoformat w (date (ms ! i)) @ ''] in '' @ str_int k @ '': '' @ message_text (ms ! i)
         \<and> str_int k \<noteq> []
         \<and> outcome (run w environ inp (Search q N)) =
             (case aexit_r w of
                Inl x \<Rightarrow> Inl (Lib x)
              | Inr _ \<Rightarrow> (case fin of None \<Rightarrow> Inr () | Some x \<Rightarrow> Inl (Lib x)))"
proof -
  note r = cmd_search_run [OF assms(1-4), of inp]
  have p: "printed (run w environ inp (Search q N)) =
             map (\<lambda>m. search_line (isoformat w) m (chat_label m)) ms"
    by (simp add: printed_def events_def r printed_of_append printed_of_hits)
  have l: "chat_label (ms ! i) = PyStr (str_int k)"
    by (simp add: chat_label_def assms(6,7))
  have o: "outcome (run w environ inp (Search q N)) =
             (case aexit_r w of
                Inl x \<Rightarrow> Inl (Lib x)
              | Inr _ \<Rightarrow> (case fin of None \<Rightarrow> Inr () | Some x \<Rightarrow> Inl (Lib x)))"
    by (simp add: outcome_def r)
  show ?thesis
    using assms(5) by (simp add: p l o search_line_def str_int_nonempty)
qed


lemma client_built_world:
  assumes "TelegramClient_r w = TelegramClient_r fake_service"
  shows "client_built w good_env 12345 ''0123abcd''"
  using client_built_fake assms by (simp add: client_built_def)

theorem search_label_fallback_witness:
  "length (printed (run search_service good_env [] (Search ''foo'' 20))) = 3
   \<and> printed (run search_service good_env [] (Search ''foo'' 20)) ! 1 = ''[4] in -1001234: foo''
   \<and> get_chat ([hit_titled, hit_unresolved, hit_bare] ! 1) = Inl lookup_error
   \<and> outcome (run search_service good_env [] (Search ''foo'' 20)) = Inr ()"
proof -
  have b: "client_built search_service good_env 12345 ''0123abcd''"
    by (rule client_built_world) (simp add: search_service_def fake_service_def)
  have a: "aenter_r search_service = Inr ()"
    and x: "aexit_r search_service = Inr ()"
    and f: "isoformat search_service = str_nat"
    and it: "iter_messages_r search_service ''foo'' 20 = ([hit_titled, hit_unresolved, hit_bare], None)"
    by (simp_all add: search_service_def fake_service_def)
  have d: "\<forall>m\<in>set [hit_titled, hit_unresolved, hit_bare]. \<forall>x. get_chat m = Inl x \<longrightarrow> derives_Exception x"
    by (simp add: hit_titled_def hit_unresolved_def hit_bare_def lookup_error_def)
  have i: "(1::nat) < length [hit_titled, hit_unresolved, hit_bare]"
    by simp
  have g: "get_chat ([hit_titled, hit_unresolved, hit_bare] ! 1) = Inl lookup_error"
    by (simp add: hit_unresolved_def)
  have k: "getattr (attrs ([hit_titled, hit_unresolved, hit_bare] ! 1)) ''chat_id'' PyNone = PyInt (- 1001234)"
    by (simp add: hit_unresolved_def getattr_def)
  have s: "str_int (- 1001234) = ''-1001234''" "str_nat 4 = ''4''"
    by (simp_all add: str_int_def str_nat.simps digit_chr_def)
  from search_label_fallback [OF b a it d i g k, where inp = "[]"] g show ?thesis
    by (simp add: x f s hit_unresolved_def message_text_def replace_def newline_def)
qed

text \<open>
  Claim C10. When title, username and first name are all absent from a dialog's entity,
  \<^verbatim>\<open>dialogs\<close> prints the label \<^verbatim>\<open>None\<close> on its line; when the chat lookup of a search
  result raises and the result has no \<^verbatim>\<open>chat_id\<close> attribute, \<^verbatim>\<open>search\<close> prints \<^verbatim>\<open>in None\<close> on
  its line.
\<close>

theorem label_none_when_absent:
  "(client_built w environ n h \<and> aenter_r w = Inr () \<and> get_dialogs_r w N = Inr ds \<and> i < length ds
      \<and> map_of (entity (ds ! i)) ''title'' = None \<and> map_of (entity (ds ! i)) ''username'' = None
      \<and> map_of (entity (ds ! i)) ''first_name'' = None
    \<longrightarrow> printed (run w environ inp (Dialogs N)) ! i = str_int (dialog_id (ds ! i)) @ [tab] @ ''None'')
   \<and> (client_built w environ n h \<and> aenter_r w = Inr () \<and> iter_messages_r w q N = (ms, fin)
      \<and> (\<forall>m\<in>set ms. \<forall>x. get_chat m = Inl x \<longrightarrow> derives_Exception x)
      \<and> j < length ms \<and> get_chat (ms ! j) = Inl e \<and> map_of (attrs (ms ! j)) ''chat_id'' = None
    \<longrightarrow> printed (run w environ inp (Search q N)) ! j =
          ''['' @ isoformat w (date (ms ! j)) @ ''] in None: '' @ message_text (ms ! j))"
proof (intro conjI impI)
  assume h: "client_built w environ n h \<and> aenter_r w = Inr () \<and> get_dialogs_r w N = Inr ds \<and> i < length ds
      \<and> map_of (entity (ds ! i)) ''title'' = None \<and> map_of (entity (ds ! i)) ''username'' = None
      \<and> map_of (entity (ds ! i)) ''first_name'' = None"
  then have "printed (run w environ inp (Dialogs N)) = map dialogs_line ds"
    using cmd_dialogs_printed [of w environ n h N ds inp] by simp
  with h show "printed (run w environ inp (Dialogs N)) ! i = str_int (dialog_id (ds ! i)) @ [tab] @ ''None''"
    by (simp add: dialogs_line_def dialogs_title_def getattr_def py_or_def)
next
  assume h: "client_built w environ n h \<and> aenter_r w = Inr () \<and> iter_messages_r w q N = (ms, fin)
      \<and> (\<forall>m\<in>set ms. \<forall>x. get_chat m = Inl x \<longrightarrow> derives_Exception x)
      \<and> j < length ms \<and> get_chat (ms ! j) = Inl e \<and> map_of (attrs (ms ! j)) ''chat_id'' = None"
  then have r: "run w environ inp (Search q N) =
           ((case aexit_r w of
               Inl x \<Rightarrow> Inl (Lib x)
             | Inr _ \<Rightarrow> (case fin of None \<Rightarrow> Inr () | Some x \<Rightarrow> Inl (Lib x))),
            \<lparr>trace = [Call (TelegramClient SESSION_PATH n h) None, Call AEnter None]
                     @ concat (map (hit_events (isoformat w) (IterMessages q N)) ms)
                     @ [Call (IterMessages q N) fin, Call AExit (raised (aexit_r w))],
             stdin = inp\<rparr>)"
    using cmd_search_run [of w environ n h q N ms fin inp] by simp
  have p: "printed (run w environ inp (Search q N)) =
             map (\<lambda>m. search_line (isoformat w) m (chat_label m)) ms"
    by (simp add: printed_def events_def r printed_of_append printed_of_hits)
  have l: "chat_label (ms ! j) = PyStr ''None''"
    using h by (simp add: chat_label_def getattr_def)
  show "printed (run w environ inp (Search q N)) ! j =
          ''['' @ isoformat w (date (ms ! j)) @ ''] in None: '' @ message_text (ms ! j)"
    using h by (simp add: p l search_line_def)
qed

theorem label_none_when_absent_witness:
  "printed (run nameless_service good_env [] (Dialogs 30)) ! 0 = ''7'' @ [tab] @ ''None''
   \<and> printed (run search_service good_env [] (Search ''foo'' 20)) ! 2 = ''[3] in None: bar''"
proof -
  have b: "client_built nameless_service good_env 12345 ''0123abcd''"
    by (rule client_built_world) (simp add: nameless_service_def fake_service_def)
  have b': "client_built search_service good_env 12345 ''0123abcd''"
    by (rule client_built_world) (simp add: search_service_def fake_service_def)
  have a: "aenter_r nameless_service = Inr ()"
    and g: "get_dialogs_r nameless_service 30 = Inr [nameless_dialog]"
    by (simp_all add: nameless_service_def fake_service_def)
  have a': "aenter_r search_service = Inr ()"
    and f: "isoformat search_service = str_nat"
    and it: "iter_messages_r search_service ''foo'' 20 = ([hit_titled, hit_unresolved, hit_bare], None)"
    by (simp_all add: search_service_def fake_service_def)
  have d: "\<forall>m\<in>set [hit_titled, hit_unresolved, hit_bare]. \<forall>x. get_chat m = Inl x \<longrightarrow> derives_Exception x"
    by (simp add: hit_titled_def hit_unresolved_def hit_bare_def lookup_error_def)
  have s: "str_int 7 = ''7''" "str_nat 3 = ''3''"
    by (simp_all add: str_int_def str_nat.simps digit_chr_def)
  have one: "printed (run nameless_service good_env [] (Dialogs 30)) ! 0 = ''7'' @ [tab] @ ''None''"
    using label_none_when_absent [where w = nameless_service and environ = good_env and N = 30
        and ds = "[nameless_dialog]" and i = 0 and inp = "[]" and n = 12345 and h = "''0123abcd''"
        and ms = "[]" and j = 0] b a g
    by (simp add: nameless_dialog_def s)
  have two: "printed (run search_service good_env [] (Search ''foo'' 20)) ! 2 = ''[3] in None: bar''"
    using label_none_when_absent [where w = search_service and environ = good_env and N = 20
        and q = "''foo''" and ms = "[hit_titled, hit_unresolved, hit_bare]" and fin = None
        and j = 2 and e = lookup_error and inp = "[]" and n = 12345 and h = "''0123abcd''"
        and ds = "[]" and i = 0] b' a' it d
    by (simp add: hit_bare_def f s message_text_def replace_def newline_def)
  from one two show ?thesis by simp
qed

section \<open>Exceptions of the library\<close>

lemma propagatesI:
  assumes "\<And>st. \<exists>evs. trace (snd (m st)) = trace st @ evs \<and> uncaught_end evs (fst (m st))"
  shows "propagates m"
  using assms by (simp add: propagates_def)

lemma propagatesD:
  assumes "propagates m"
  obtains evs where "trace (snd (m st)) = trace st @ evs" "uncaught_end evs (fst (m st))"
  using assms unfolding propagates_def by blast

lemma uncaught_end_Nil: "uncaught_end [] r"
  by (simp add: uncaught_end_def)

lemma propagates_return: "propagates (io_return v)"
  by (rule propagatesI) (simp add: io_return_def uncaught_end_Nil)

lemma propagates_raise: "propagates (io_raise e)"
  by (rule propagatesI) (simp add: io_raise_def uncaught_end_Nil)

lemma propagates_print: "propagates (py_print l)"
  by (rule propagatesI) (simp add: py_print_def log_def uncaught_end_def)

lemma propagates_input: "propagates (py_input p)"
  by (rule propagatesI) (simp add: py_input_def log_def uncaught_end_def split: list.splits)

lemma propagates_call: "propagates (call c r)"
  by (rule propagatesI) (simp add: call_def log_def uncaught_end_def split: sum.splits)

lemma uncaught_end_Inr:
  "uncaught_end evs (Inr v) \<longleftrightarrow> (\<forall>c x. Call c (Some x) \<in> set evs \<longrightarrow> caught c x)"
  by (simp add: uncaught_end_def)

lemma uncaught_end_Inl:
  "uncaught_end evs (Inl e :: error + 'a) \<Longrightarrow> uncaught_end evs (Inl e :: error + 'b)"
  by (simp add: uncaught_end_def)

lemma uncaught_end_append:
  assumes "\<forall>c x. Call c (Some x) \<in> set evs1 \<longrightarrow> caught c x" "uncaught_end evs2 r"
  shows "uncaught_end (evs1 @ evs2) r"
  using assms unfolding uncaught_end_def set_append Un_iff by blast

lemma propagates_bind:
  assumes "propagates m" "\<And>v. propagates (f v)"
  shows "propagates (io_bind m f)"
proof (rule propagatesI)
  fix st
  obtain evs1 where t1: "trace (snd (m st)) = trace st @ evs1" and u1: "uncaught_end evs1 (fst (m st))"
    using assms(1) by (rule propagatesD)
  show "\<exists>evs. trace (snd (io_bind m f st)) = trace st @ evs \<and> uncaught_end evs (fst (io_bind m f st))"
  proof (cases "fst (m st)")
    case (Inl e)
    then have "io_bind m f st = (Inl e, snd (m st))"
      by (cases "m st") (simp add: io_bind_def)
    with t1 u1 Inl show ?thesis
      by (auto intro: uncaught_end_Inl)
  next
    case (Inr v)
    then have b: "io_bind m f st = f v (snd (m st))"
      by (cases "m st") (simp add: io_bind_def)
    obtain evs2 where t2: "trace (snd (f v (snd (m st)))) = trace (snd (m st)) @ evs2"
      and u2: "uncaught_end evs2 (fst (f v (snd (m st))))"
      using assms(2) by (rule propagatesD)
    from u1 Inr have "\<forall>c x. Call c (Some x) \<in> set evs1 \<longrightarrow> caught c x"
      by (simp add: uncaught_end_Inr)
    then have "uncaught_end (evs1 @ evs2) (fst (f v (snd (m st))))"
      using u2 by (rule uncaught_end_append)
    with t1 t2 b show ?thesis
      by simp
  qed
qed

lemma propagates_async_with:
  assumes "propagates body"
  shows "propagates (async_with w body)"
proof (rule propagatesI)
  fix st
  show "\<exists>evs. trace (snd (async_with w body st)) = trace st @ evs
          \<and> uncaught_end evs (fst (async_with w body st))"
  proof (cases "aenter_r w")
    case (Inl x)
    then show ?thesis
      by (simp add: async_with_def io_bind_def call_def log_def uncaught_end_def)
  next
    case (Inr u)
    let ?st1 = "log (Call AEnter None) st"
    obtain evs where t: "trace (snd (body ?st1)) = trace ?st1 @ evs"
      and u: "uncaught_end evs (fst (body ?st1))"
      using assms by (rule propagatesD)
    show ?thesis
    proof (cases "aexit_r w")
      case (Inl y)
      with Inr t have "trace (snd (async_with w body st)) = trace st @ (Call AEnter None # evs @ [Call AExit (Some y)])"
        and "fst (async_with w body st) = Inl (Lib y)"
        by (cases "body ?st1"; simp add: async_with_def io_bind_def call_def log_def)+
      then show ?thesis
        by (auto simp: uncaught_end_def)
    next
      case (Inr v)
      with \<open>aenter_r w = Inr u\<close> t
      have "trace (snd (async_with w body st)) = trace st @ (Call AEnter None # evs @ [Call AExit None])"
        and "fst (async_with w body st) = fst (body ?st1)"
        by (cases "body ?st1"; simp add: async_with_def io_bind_def call_def log_def)+
      moreover from u have "uncaught_end (Call AEnter None # evs @ [Call AExit None]) (fst (body ?st1))"
        unfolding uncaught_end_def by auto
      ultimately show ?thesis
        by auto
    qed
  qed
qed

lemma propagates_dialogs_loop: "propagates (dialogs_loop ds)"
  by (induction ds) (auto intro: propagates_return propagates_bind propagates_print)

lemma propagates_tail_loop: "propagates (tail_loop fmt ms)"
  by (induction ms) (auto intro: propagates_return propagates_bind propagates_print)

lemma propagates_search_chat: "propagates (search_chat m)"
  by (rule propagatesI)
    (auto simp: search_chat_def try_except_def io_bind_def call_def io_return_def log_def
      uncaught_end_def caught_def split: sum.splits)

lemma propagates_search_loop: "propagates (search_loop fmt it ms fin)"
proof (induction ms)
  case Nil
  show ?case by (cases fin) (simp_all add: propagates_call)
next
  case (Cons m ms)
  show ?case
    by (auto intro!: propagates_bind propagates_call propagates_search_chat propagates_print Cons)
qed

lemma propagates_get_client: "propagates (get_client w environ)"
  by (auto simp: get_client_def Let_def intro: propagates_raise propagates_call split: option.splits)

lemma propagates_sign_in:
  "propagates (try_except (call (SignIn p k) r)
     (\<lambda>e. if contains ''password'' (lower (message_of e)) then
             io_bind (py_input ''Enter your Telegram 2FA password: '') (\<lambda>pwd.
               call (SignInPassword pwd) (sign_in_password_r w pwd))
           else io_raise (Lib e)))"
proof (rule propagatesI)
  fix st
  let ?h = "io_bind (py_input ''Enter your Telegram 2FA password: '') (\<lambda>pwd.
               call (SignInPassword pwd) (sign_in_password_r w pwd))"
  let ?m = "try_except (call (SignIn p k) r)
     (\<lambda>e. if contains ''password'' (lower (message_of e)) then ?h else io_raise (Lib e))"
  have ph: "propagates ?h"
    by (intro propagates_bind propagates_input propagates_call)
  show "\<exists>evs. trace (snd (?m st)) = trace st @ evs \<and> uncaught_end evs (fst (?m st))"
  proof (cases r)
    case (Inr v)
    then show ?thesis
      by (simp add: try_except_def call_def log_def uncaught_end_def)
  next
    case (Inl e)
    let ?st1 = "log (Call (SignIn p k) (Some e)) st"
    show ?thesis
    proof (cases "derives_Exception e \<and> contains ''password'' (lower (message_of e))")
      case True
      obtain evs where t: "trace (snd (?h ?st1)) = trace ?st1 @ evs"
        and u: "uncaught_end evs (fst (?h ?st1))"
        using ph by (rule propagatesD)
      from True Inl have m: "?m st = ?h ?st1"
        by (simp add: try_except_def call_def)
      have "\<forall>c x. Call c (Some x) \<in> set [Call (SignIn p k) (Some e)] \<longrightarrow> caught c x"
        using True by (simp add: caught_def)
      then have "uncaught_end ([Call (SignIn p k) (Some e)] @ evs) (fst (?h ?st1))"
        using u by (rule uncaught_end_append)
      with t m show ?thesis
        by (simp add: log_def)
    next
      case False
      with Inl have "?m st = (Inl (Lib e), ?st1)"
        by (auto simp: try_except_def call_def io_raise_def)
      then show ?thesis
        by (simp add: log_def uncaught_end_def)
    qed
  qed
qed

lemma propagates_cmd_login: "propagates (cmd_login w environ phone)"
  unfolding cmd_login_def Let_def
  by (intro propagates_bind propagates_get_client propagates_call)
    (auto intro!: propagates_raise propagates_return propagates_bind propagates_call
      propagates_input propagates_sign_in propagates_print split: option.splits)

lemma propagates_cmd_dialogs: "propagates (cmd_dialogs w environ N)"
  unfolding cmd_dialogs_def
  by (intro propagates_bind propagates_get_client propagates_async_with propagates_call
      propagates_dialogs_loop)

lemma propagates_cmd_tail: "propagates (cmd_tail w environ chat N)"
  unfolding cmd_tail_def
  by (intro propagates_bind propagates_get_client propagates_async_with propagates_call
      propagates_tail_loop)

lemma propagates_cmd_search: "propagates (cmd_search w environ q N)"
  unfolding cmd_search_def
  by (intro propagates_bind propagates_get_client propagates_async_with)
    (simp add: propagates_search_loop split: prod.splits)

lemma propagates_main: "propagates (main w environ a)"
  by (cases a)
    (simp_all add: main_def propagates_cmd_login propagates_cmd_dialogs propagates_cmd_tail
      propagates_cmd_search)

lemma run_uncaught_end: "uncaught_end (events (run w environ inp a)) (outcome (run w environ inp a))"
proof -
  obtain evs where "trace (snd (main w environ a \<lparr>trace = [], stdin = inp\<rparr>)) = [] @ evs"
    and "uncaught_end evs (fst (main w environ a \<lparr>trace = [], stdin = inp\<rparr>))"
    using propagates_main [of w environ a]
    by (rule propagatesD [where st = "\<lparr>trace = [], stdin = inp\<rparr>"]) simp
  then show ?thesis
    by (simp add: events_def outcome_def run_def)
qed

lemma login_until_sign_in:
  assumes "client_built w environ n h" "connect_r w = Inr ()" "is_user_authorized_r w = Inr False"
    and "phone \<noteq> []" "send_code_request_r w phone = Inr ()"
    and "sign_in_r w phone (strip l) = Inl e"
  shows "run w environ (l # inp) (Login (Some phone)) =
           io_bind
             (if derives_Exception e \<and> contains ''password'' (lower (message_of e)) then
                io_bind (py_input ''Enter your Telegram 2FA password: '') (\<lambda>pwd.
                  call (SignInPassword pwd) (sign_in_password_r w pwd))
              else io_raise (Lib e))
             (\<lambda>_. io_bind (call GetMe (get_me_r w)) (\<lambda>me.
                io_bind
                  (case me of
                     None \<Rightarrow> io_raise (AttributeError ''id'')
                   | Some u \<Rightarrow>
                       py_print (''Logged in as: '' @ str_int (user_id u) @ '' @''
                                 @ py_str (getattr (user_attrs u) ''username'' PyNone)))
                  (\<lambda>_. call Disconnect (disconnect_r w))))
             \<lparr>trace = [Call (TelegramClient SESSION_PATH n h) None, Call Connect None,
                       Call IsUserAuthorized None, Call (SendCodeRequest phone) None,
                       Input ''Enter the Telegram login code you received: '',
                       Call (SignIn phone (strip l)) (Some e)],
              stdin = inp\<rparr>"
  using assms(2-6)
  by (simp add: run_def main_def cmd_login_def get_client_built [OF assms(1)] io_bind_def call_def
      log_def not_str_def py_input_def try_except_def io_raise_def)

lemma trace_extends:
  assumes "propagates m"
  shows "\<exists>evs. trace (snd (m st)) = trace st @ evs"
  using assms by (rule propagatesD) blast

text \<open>
  Claim C3. In \<^verbatim>\<open>login\<close> on a session that is not authorized, with a phone number and a
  code read from standard input, let the first sign-in raise an exception \<open>e\<close> (deriving
  from \<^verbatim>\<open>Exception\<close>). If the lower-cased message of \<open>e\<close> contains \<^verbatim>\<open>password\<close>, the program
  prompts for the 2FA password and calls sign-in again with the line it read. If it does
  not, the command ends with \<open>e\<close> right after the failed sign-in. And in every run of
  every command, an exception raised by a call into the library, other than those two
  caught ones (\<open>caught\<close>: the chat lookup of \<^verbatim>\<open>search\<close>, and the first sign-in mentioning a
  password), is what the command ends with, unless leaving the client raised after it,
  in which case the command ends with that later exception.
\<close>

theorem login_second_factor:
  assumes "client_built w environ n h" "connect_r w = Inr ()" "is_user_authorized_r w = Inr False"
    and "phone \<noteq> []" "send_code_request_r w phone = Inr ()"
    and "sign_in_r w phone (strip l) = Inl e" "derives_Exception e"
  shows "(contains ''password'' (lower (message_of e)) \<longrightarrow>
            take 8 (events (run w environ (l # pwd # inp) (Login (Some phone)))) =
              [Call (TelegramClient SESSION_PATH n h) None, Call Connect None,
               Call IsUserAuthorized None, Call (SendCodeRequest phone) None,
               Input ''Enter the Telegram login code you received: '',
               Call (SignIn phone (strip l)) (Some e),
               Input ''Enter your Telegram 2FA password: '',
               Call (SignInPassword pwd) (raised (sign_in_password_r w pwd))])
         \<and> (\<not> contains ''password'' (lower (message_of e)) \<longrightarrow>
            run w environ (l # inp) (Login (Some phone)) =
              (Inl (Lib e),
               \<lparr>trace = [Call (TelegramClient SESSION_PATH n h) None, Call Connect None,
                         Call IsUserAuthorized None, Call (SendCodeRequest phone) None,
                         Input ''Enter the Telegram login code you received: '',
                         Call (SignIn phone (strip l)) (Some e)],
                stdin = inp\<rparr>))
         \<and> (Call c (Some x) \<in> set (events (run w' environ' inp' a)) \<and> \<not> caught c x \<longrightarrow>
            outcome (run w' environ' inp' a) = Inl (Lib x)
            \<or> (\<exists>y. Call AExit (Some y) \<in> set (events (run w' environ' inp' a))
                    \<and> outcome (run w' environ' inp' a) = Inl (Lib y)))"
proof (intro conjI impI)
  assume p: "contains ''password'' (lower (message_of e))"
  let ?rest = "\<lambda>_::unit. io_bind (call GetMe (get_me_r w)) (\<lambda>me.
                io_bind
                  (case me of
                     None \<Rightarrow> io_raise (AttributeError ''id'')
                   | Some u \<Rightarrow>
                       py_print (''Logged in as: '' @ str_int (user_id u) @ '' @''
                                 @ py_str (getattr (user_attrs u) ''username'' PyNone)))
                  (\<lambda>_. call Disconnect (disconnect_r w)))"
  have pr: "propagates (?rest ())"
    by (auto intro!: propagates_bind propagates_call propagates_raise propagates_print
        split: option.splits)
  let ?pre = "[Call (TelegramClient SESSION_PATH n h) None, Call Connect None,
               Call IsUserAuthorized None, Call (SendCodeRequest phone) None,
               Input ''Enter the Telegram login code you received: '',
               Call (SignIn phone (strip l)) (Some e),
               Input ''Enter your Telegram 2FA password: '',
               Call (SignInPassword pwd) (raised (sign_in_password_r w pwd))]"
  let ?st = "\<lparr>trace = ?pre, stdin = inp\<rparr>"
  have "\<exists>evs. events (run w environ (l # pwd # inp) (Login (Some phone))) = ?pre @ evs"
  proof (cases "sign_in_password_r w pwd")
    case (Inl y)
    then show ?thesis
      using p assms(7)
      by (simp add: login_until_sign_in [OF assms(1-6)] io_bind_def py_input_def call_def log_def
          raised_def events_def)
  next
    case (Inr u)
    then have "run w environ (l # pwd # inp) (Login (Some phone)) = ?rest () ?st"
      using p assms(7)
      by (simp add: login_until_sign_in [OF assms(1-6)] io_bind_def py_input_def call_def log_def
          raised_def)
    moreover obtain evs where "trace (snd (?rest () ?st)) = trace ?st @ evs"
      using trace_extends [OF pr] by blast
    ultimately show ?thesis
      by (simp add: events_def)
  qed
  then obtain evs where "events (run w environ (l # pwd # inp) (Login (Some phone))) = ?pre @ evs"
    by blast
  then show "take 8 (events (run w environ (l # pwd # inp) (Login (Some phone)))) = ?pre"
    by simp
next
  assume "\<not> contains ''password'' (lower (message_of e))"
  then show "run w environ (l # inp) (Login (Some phone)) =
              (Inl (Lib e),
               \<lparr>trace = [Call (TelegramClient SESSION_PATH n h) None, Call Connect None,
                         Call IsUserAuthorized None, Call (SendCodeRequest phone) None,
                         Input ''Enter the Telegram login code you received: '',
                         Call (SignIn phone (strip l)) (Some e)],
                stdin = inp\<rparr>)"
    by (simp add: login_until_sign_in [OF assms(1-6)] io_bind_def io_raise_def)
next
  assume "Call c (Some x) \<in> set (events (run w' environ' inp' a)) \<and> \<not> caught c x"
  then show "outcome (run w' environ' inp' a) = Inl (Lib x)
            \<or> (\<exists>y. Call AExit (Some y) \<in> set (events (run w' environ' inp' a))
                    \<and> outcome (run w' environ' inp' a) = Inl (Lib y))"
    using run_uncaught_end [of w' environ' inp' a] unfolding uncaught_end_def by blast
qed

lemma failing_service_run:
  "run failing_service good_env [] (Dialogs 30) =
     (Inl (Lib flood_wait),
      \<lparr>trace = [Call (TelegramClient SESSION_PATH 12345 ''0123abcd'') None, Call AEnter None,
                 Call (GetDialogs 30) (Some flood_wait), Call AExit None],
       stdin = []\<rparr>)"
proof -
  have b: "client_built failing_service good_env 12345 ''0123abcd''"
    by (rule client_built_world) (simp add: failing_service_def fake_service_def)
  have f: "aenter_r failing_service = Inr ()" "aexit_r failing_service = Inr ()"
      "get_dialogs_r failing_service 30 = Inl flood_wait"
    by (simp_all add: failing_service_def fake_service_def)
  show ?thesis
    by (simp add: run_def main_def cmd_dialogs_def io_bind_def get_client_built [OF b]
        async_with_def call_def log_def f)
qed

theorem login_second_factor_witness:
  "take 8 (events (run second_factor_service good_env ['' 12345 '', ''hunter2'']
      (Login (Some ''+15551234567'')))) =
     [Call (TelegramClient SESSION_PATH 12345 ''0123abcd'') None, Call Connect None,
      Call IsUserAuthorized None, Call (SendCodeRequest ''+15551234567'') None,
      Input ''Enter the Telegram login code you received: '',
      Call (SignIn ''+15551234567'' ''12345'') (Some password_needed),
      Input ''Enter your Telegram 2FA password: '',
      Call (SignInPassword ''hunter2'') None]
   \<and> run bad_code_service good_env ['' 12345 ''] (Login (Some ''+15551234567'')) =
       (Inl (Lib code_invalid),
        \<lparr>trace = [Call (TelegramClient SESSION_PATH 12345 ''0123abcd'') None, Call Connect None,
                   Call IsUserAuthorized None, Call (SendCodeRequest ''+15551234567'') None,
                   Input ''Enter the Telegram login code you received: '',
                   Call (SignIn ''+15551234567'' ''12345'') (Some code_invalid)],
         stdin = []\<rparr>)
   \<and> outcome (run failing_service good_env [] (Dialogs 30)) = Inl (Lib flood_wait)"
proof -
  have st: "strip '' 12345 '' = ''12345''"
    by (simp add: strip_def is_space_def)
  have b2: "client_built second_factor_service good_env 12345 ''0123abcd''"
    by (rule client_built_world) (simp add: second_factor_service_def fake_service_def)
  have h2: "connect_r second_factor_service = Inr ()"
      "is_user_authorized_r second_factor_service = Inr False"
      "send_code_request_r second_factor_service ''+15551234567'' = Inr ()"
      "sign_in_r second_factor_service ''+15551234567'' (strip '' 12345 '') = Inl password_needed"
      "sign_in_password_r second_factor_service ''hunter2'' = Inr ()"
    by (simp_all add: second_factor_service_def fake_service_def)
  have d2: "derives_Exception password_needed"
    and c2: "contains ''password'' (lower (message_of password_needed))"
    by (simp_all add: password_needed_def lower_def lower_chr_def)
  have b3: "client_built bad_code_service good_env 12345 ''0123abcd''"
    by (rule client_built_world) (simp add: bad_code_service_def fake_service_def)
  have h3: "connect_r bad_code_service = Inr ()"
      "is_user_authorized_r bad_code_service = Inr False"
      "send_code_request_r bad_code_service ''+15551234567'' = Inr ()"
      "sign_in_r bad_code_service ''+15551234567'' (strip '' 12345 '') = Inl code_invalid"
    by (simp_all add: bad_code_service_def fake_service_def)
  have d3: "derives_Exception code_invalid"
    and c3: "\<not> contains ''password'' (lower (message_of code_invalid))"
    by (simp_all add: code_invalid_def lower_def lower_chr_def)
  have m: "Call (GetDialogs 30) (Some flood_wait)
             \<in> set (events (run failing_service good_env [] (Dialogs 30)))"
    and nx: "\<And>y. Call AExit (Some y) \<notin> set (events (run failing_service good_env [] (Dialogs 30)))"
    by (simp_all add: failing_service_run events_def)
  have nc: "\<not> caught (GetDialogs 30) flood_wait"
    by (simp add: caught_def)
  have p: "''+15551234567'' \<noteq> []"
    by simp
  note t2 = login_second_factor [OF b2 h2(1,2) p h2(3,4) d2, where pwd = "''hunter2''" and inp = "[]"
      and c = "GetDialogs 30" and x = flood_wait and w' = failing_service and environ' = good_env
      and inp' = "[]" and a = "Dialogs 30"]
  note t3 = login_second_factor [OF b3 h3(1,2) p h3(3,4) d3, where inp = "[]"
      and c = "GetDialogs 30" and x = flood_wait and w' = failing_service and environ' = good_env
      and inp' = "[]" and a = "Dialogs 30"]
  from t2 c2 have one: "take 8 (events (run second_factor_service good_env ['' 12345 '', ''hunter2'']
      (Login (Some ''+15551234567'')))) =
     [Call (TelegramClient SESSION_PATH 12345 ''0123abcd'') None, Call Connect None,
      Call IsUserAuthorized None, Call (SendCodeRequest ''+15551234567'') None,
      Input ''Enter the Telegram login code you received: '',
      Call (SignIn ''+15551234567'' ''12345'') (Some password_needed),
      Input ''Enter your Telegram 2FA password: '',
      Call (SignInPassword ''hunter2'') None]"
    by (simp add: st h2(5) raised_def)
  from t3 c3 have two: "run bad_code_service good_env ['' 12345 ''] (Login (Some ''+15551234567'')) =
       (Inl (Lib code_invalid),
        \<lparr>trace = [Call (TelegramClient SESSION_PATH 12345 ''0123abcd'') None, Call Connect None,
                   Call IsUserAuthorized None, Call (SendCodeRequest ''+15551234567'') None,
                   Input ''Enter the Telegram login code you received: '',
                   Call (SignIn ''+15551234567'' ''12345'') (Some code_invalid)],
         stdin = []\<rparr>)"
    by (simp add: st)
  from t2 m nc nx have three: "outcome (run failing_service good_env [] (Dialogs 30)) = Inl (Lib flood_wait)"
    by blast
  from one two three show ?thesis
    by blast
qed

end
